theory Spec2Isabelle
  imports Main "HOL-Library.Word"
begin

unbundle bit_operations_syntax

section \<open>Domain model (pkg/blockatlas/lending.go)\<close>

text \<open>
  A Go slice is either the nil slice or a slice holding a sequence of elements; the two
  are different values (\<open>len\<close> is 0 for both, but only the first compares equal to
  \<open>nil\<close>), so the model keeps them apart. \<open>append\<close> on either gives a non-nil slice.
\<close>

datatype 'a slice = NilSlice | Slice "'a list"

fun elems :: "'a slice \<Rightarrow> 'a list" where
  "elems NilSlice = []"
| "elems (Slice xs) = xs"

fun append_slice :: "'a slice \<Rightarrow> 'a \<Rightarrow> 'a slice" where
  "append_slice NilSlice x = Slice [x]"
| "append_slice (Slice xs) x = Slice (xs @ [x])"

text \<open>
  A \<open>float64\<close> is its IEEE 754 bit pattern, an \<open>int64\<close> a 64-bit word read as signed.
  A Go \<open>string\<close> is a sequence of bytes: a \<^typ>\<open>string\<close>.
\<close>

type_synonym float64 = "64 word"
type_synonym int64 = "64 word"

type_synonym ProviderType = string

definition ProviderTypeLending :: ProviderType where
  "ProviderTypeLending = ''lending''"

definition ProviderTypeStaking :: ProviderType where
  "ProviderTypeStaking = ''staking''"

text \<open>
  The structs of lending.go, innermost first. Field names are kept; where two structs
  share a field name the inner struct's field is prefixed (\<open>Info_ID\<close>, \<open>Token_Symbol\<close>,
  \<open>Request_Assets\<close>, ...). The pointer field \<open>DefiInfo *DefiAssetInfo\<close> is an option,
  \<open>None\<close> for the nil pointer.
\<close>

record DefiTokenInfo =
  Token_Symbol :: string
  Chain :: string
  ContractAddress :: string

record DefiAssetInfo =
  AssetToken :: DefiTokenInfo
  TechnicalToken :: DefiTokenInfo

record AssetMetaInfo =
  DefiInfo :: "DefiAssetInfo option"

record AssetInfo =
  Symbol :: string
  Description :: string
  APY :: float64
  YieldPeriod :: int64
  YieldFrequency :: int64
  TotalSupply :: string
  MinimumAmount :: string
  MetaInfo :: AssetMetaInfo

record LendingProviderInfo =
  Info_ID :: string
  Info_Description :: string
  Image :: string
  Website :: string

record LendingProvider =
  ID :: string
  Info :: LendingProviderInfo
  Type :: ProviderType
  Assets :: "AssetInfo slice"

record AccountRequest =
  Addresses :: "string slice"
  Request_Assets :: "string slice"

record LendingContract =
  Asset :: AssetInfo
  CurrentAmount :: string

record AccountLendingContracts =
  Address :: string
  Contracts :: "LendingContract slice"

text \<open>
  Modelled from the spec: \<open>RatesRequest\<close> is declared in another file of the package;
  the specification gives it as \<open>RatesRequest{assets: sequence of string}\<close>, and
  \<open>getRates\<close> reads its field \<open>Assets\<close>.
\<close>

record RatesRequest =
  Rates_Assets :: "string slice"

section \<open>Errors and provider backends\<close>

text \<open>
  A Go \<open>error\<close> is either the value built by \<open>fmt.Errorf\<close>, known by its formatted
  message, or whatever value a backend chose to return (of an arbitrary type \<open>'e\<close>). The
  nil error is \<open>None\<close> of \<open>'e error option\<close>. A Go function returning \<open>(v, err)\<close> returns
  a pair: both components are passed on, whatever they are.
\<close>

datatype 'e error = Errorf string | BackendError 'e

text \<open>
  Modelled from the spec: the interface \<open>blockatlas.LendingAPI\<close> and the element type
  \<open>LendingAssetRates\<close> are declared in another file of the package. The specification
  gives the interface as the three methods below; the element type of the rates is left
  open (the type variable \<open>'r\<close>). A backend talks to its upstream source, so each method
  reads and changes the world outside the service (\<open>'w\<close>). An entry of the registry is
  an implementation of the interface, and a method is a function that returns: a nil
  interface value, and a backend that panics or never answers, are outside the model.
\<close>

record ('w, 'r, 'e) LendingAPI =
  GetProviderInfo :: "'w \<Rightarrow> (LendingProvider \<times> 'e error option) \<times> 'w"
  GetCurrentLendingRates ::
    "string slice \<Rightarrow> 'w \<Rightarrow> ('r slice \<times> 'e error option) \<times> 'w"
  GetAccountLendingContracts ::
    "AccountRequest \<Rightarrow> 'w \<Rightarrow> (AccountLendingContracts slice \<times> 'e error option) \<times> 'w"

text \<open>
  Every invocation of a backend method is recorded, with the registry key of the backend,
  the arguments passed and the pair returned.
\<close>

datatype ('r, 'e) event =
  Ev_GetProviderInfo string "LendingProvider \<times> 'e error option"
| Ev_GetCurrentLendingRates string "string slice" "'r slice \<times> 'e error option"
| Ev_GetAccountLendingContracts string AccountRequest
    "AccountLendingContracts slice \<times> 'e error option"

text \<open>
  The state an operation runs in: the registry \<open>apis\<close> (a Go map, passed by reference to
  every operation), the world of the backends, and the record of invocations. The Go map
  \<open>map[string]LendingAPI\<close> is the list of its entries, keys distinct, in the order in
  which \<open>range\<close> yields them in this execution (Go leaves that order unspecified).
\<close>

record ('w, 'r, 'e) state =
  apis :: "(string \<times> ('w, 'r, 'e) LendingAPI) list"
  world :: 'w
  trace :: "('r, 'e) event list"

text \<open>The comma-ok map read \<open>api, ok := apis[provider]\<close>: \<open>None\<close> is \<open>ok = false\<close>.\<close>

definition lookup ::
  "(string \<times> ('w, 'r, 'e) LendingAPI) list \<Rightarrow> string \<Rightarrow> ('w, 'r, 'e) LendingAPI option" where
  "lookup m provider = map_of m provider"

definition call_GetProviderInfo ::
  "string \<Rightarrow> ('w, 'r, 'e) LendingAPI \<Rightarrow> ('w, 'r, 'e) state
    \<Rightarrow> (LendingProvider \<times> 'e error option) \<times> ('w, 'r, 'e) state" where
  "call_GetProviderInfo k api s =
     (let (r, w') = GetProviderInfo api (world s)
      in (r, s\<lparr>world := w', trace := trace s @ [Ev_GetProviderInfo k r]\<rparr>))"

definition call_GetCurrentLendingRates ::
  "string \<Rightarrow> ('w, 'r, 'e) LendingAPI \<Rightarrow> string slice \<Rightarrow> ('w, 'r, 'e) state
    \<Rightarrow> ('r slice \<times> 'e error option) \<times> ('w, 'r, 'e) state" where
  "call_GetCurrentLendingRates k api assets s =
     (let (r, w') = GetCurrentLendingRates api assets (world s)
      in (r, s\<lparr>world := w', trace := trace s @ [Ev_GetCurrentLendingRates k assets r]\<rparr>))"

definition call_GetAccountLendingContracts ::
  "string \<Rightarrow> ('w, 'r, 'e) LendingAPI \<Rightarrow> AccountRequest \<Rightarrow> ('w, 'r, 'e) state
    \<Rightarrow> (AccountLendingContracts slice \<times> 'e error option) \<times> ('w, 'r, 'e) state" where
  "call_GetAccountLendingContracts k api req s =
     (let (r, w') = GetAccountLendingContracts api req (world s)
      in (r, s\<lparr>world := w', trace := trace s @ [Ev_GetAccountLendingContracts k req r]\<rparr>))"

section \<open>The aggregation service\<close>

text \<open>
  The body of the \<open>range\<close> loop of \<open>getProviders\<close>, over the entries still to visit:
  a backend whose call returns an error is skipped, the others are appended to \<open>ret\<close>.
\<close>

fun getProviders_range ::
  "(string \<times> ('w, 'r, 'e) LendingAPI) list \<Rightarrow> LendingProvider slice \<Rightarrow> ('w, 'r, 'e) state
    \<Rightarrow> LendingProvider slice \<times> ('w, 'r, 'e) state" where
  "getProviders_range [] ret s = (ret, s)"
| "getProviders_range ((k, api) # rest) ret s =
     (let ((prov, err), s') = call_GetProviderInfo k api s
      in if err \<noteq> None then getProviders_range rest ret s'
         else getProviders_range rest (append_slice ret prov) s')"

definition getProviders ::
  "('w, 'r, 'e) state \<Rightarrow> (LendingProvider slice \<times> 'e error option) \<times> ('w, 'r, 'e) state" where
  "getProviders s =
     (let ret = Slice [];
          (ret', s') = getProviders_range (apis s) ret s
      in ((ret', None), s'))"

definition getRates ::
  "string \<Rightarrow> RatesRequest \<Rightarrow> ('w, 'r, 'e) state
    \<Rightarrow> ('r slice \<times> 'e error option) \<times> ('w, 'r, 'e) state" where
  "getRates provider req s =
     (case lookup (apis s) provider of
        None \<Rightarrow> ((NilSlice, Some (Errorf (''Unknown provider '' @ provider))), s)
      | Some api \<Rightarrow> call_GetCurrentLendingRates provider api (Rates_Assets req) s)"

definition getAccounts ::
  "string \<Rightarrow> AccountRequest \<Rightarrow> ('w, 'r, 'e) state
    \<Rightarrow> (AccountLendingContracts slice \<times> 'e error option) \<times> ('w, 'r, 'e) state" where
  "getAccounts provider req s =
     (case lookup (apis s) provider of
        None \<Rightarrow> ((NilSlice, Some (Errorf (''Unknown provider '' @ provider))), s)
      | Some api \<Rightarrow> call_GetAccountLendingContracts provider api req s)"

text \<open>
  Two readings of a run of \<open>getProviders\<close>, used to state what it returns: the answers of
  the backends, each asked once in the order of the loop and each in the world the calls
  before it left behind; and, of a list of answers, the providers that came with a nil
  error.
\<close>

fun responses ::
  "(string \<times> ('w, 'r, 'e) LendingAPI) list \<Rightarrow> 'w \<Rightarrow> (LendingProvider \<times> 'e error option) list" where
  "responses [] w = []"
| "responses ((k, api) # rest) w =
     (let (r, w') = GetProviderInfo api w in r # responses rest w')"

definition succeeded :: "(LendingProvider \<times> 'e error option) list \<Rightarrow> LendingProvider list" where
  "succeeded rs = map fst (filter (\<lambda>r. snd r = None) rs)"

section \<open>Serialization: the struct tags read as encoding/json reads them\<close>

text \<open>
  The structs are serialized by Go's \<open>encoding/json\<close> (the handlers pass them to
  \<open>c.JSON\<close>), driven by the \<open>json:"..."\<close> tags of lending.go. The encoder is a library
  outside the repository; it is modelled here as its documentation describes it, for the
  types of lending.go, up to the JSON value it writes: an object is the list of its members in the order
  written, a string is its content (the text-level quoting and escaping is undone by any
  JSON reader and is not modelled), a number is the Go value it was formatted from.
\<close>

datatype number = NumInt int | NumFloat float64

datatype json =
  JNull
| JBool bool
| JNumber number
| JString string
| JArray "json list"
| JObject "(string \<times> json) list"

datatype marshal_error = UnsupportedValueError float64

subsection \<open>Strings\<close>

text \<open>
  \<open>encoding/json\<close> writes a string coerced to valid UTF-8: it walks the bytes, copies
  every well-formed UTF-8 sequence and writes U+FFFD (bytes EF BF BD) for every byte that
  does not start one. \<open>first\<close> is the table of \<open>unicode/utf8\<close>: for a leading byte, the
  length of the sequence and the range accepted for the second byte.
  \<open>DecodeRuneInString\<close> gives the length of the well-formed sequence at the head of the
  string, \<open>None\<close> where Go returns \<open>(RuneError, 1)\<close>.
\<close>

definition first :: "nat \<Rightarrow> (nat \<times> nat \<times> nat) option" where
  "first x =
     (if 0xC2 \<le> x \<and> x \<le> 0xDF then Some (2, 0x80, 0xBF)
      else if x = 0xE0 then Some (3, 0xA0, 0xBF)
      else if 0xE1 \<le> x \<and> x \<le> 0xEC then Some (3, 0x80, 0xBF)
      else if x = 0xED then Some (3, 0x80, 0x9F)
      else if 0xEE \<le> x \<and> x \<le> 0xEF then Some (3, 0x80, 0xBF)
      else if x = 0xF0 then Some (4, 0x90, 0xBF)
      else if 0xF1 \<le> x \<and> x \<le> 0xF3 then Some (4, 0x80, 0xBF)
      else if x = 0xF4 then Some (4, 0x80, 0x8F)
      else None)"

fun DecodeRuneInString :: "string \<Rightarrow> nat option" where
  "DecodeRuneInString [] = None"
| "DecodeRuneInString (c # cs) =
     (let s0 = (of_char c :: nat) in
      if s0 < 0x80 then Some 1
      else case first s0 of
        None \<Rightarrow> None
      | Some (sz, lo, hi) \<Rightarrow>
          if length (c # cs) < sz then None
          else let s1 = (of_char (cs ! 0) :: nat) in
            if s1 < lo \<or> hi < s1 then None
            else if sz \<le> 2 then Some 2
            else let s2 = (of_char (cs ! 1) :: nat) in
              if s2 < 0x80 \<or> 0xBF < s2 then None
              else if sz \<le> 3 then Some 3
              else let s3 = (of_char (cs ! 2) :: nat) in
                if s3 < 0x80 \<or> 0xBF < s3 then None else Some 4)"

definition RuneError_bytes :: string where
  "RuneError_bytes = [CHR 0xEF, CHR 0xBF, CHR 0xBD]"

fun string_content :: "string \<Rightarrow> string" where
  "string_content [] = []"
| "string_content (c # cs) =
     (case DecodeRuneInString (c # cs) of
        None \<Rightarrow> RuneError_bytes @ string_content cs
      | Some n \<Rightarrow> c # take (n - 1) cs @ string_content (drop (n - 1) cs))"

text \<open>\<open>utf8.ValidString\<close>: the string is a sequence of well-formed UTF-8 sequences.\<close>

fun ValidString :: "string \<Rightarrow> bool" where
  "ValidString [] = True"
| "ValidString (c # cs) =
     (case DecodeRuneInString (c # cs) of
        None \<Rightarrow> False
      | Some n \<Rightarrow> ValidString (drop (n - 1) cs))"

definition marshal_string :: "string \<Rightarrow> json" where
  "marshal_string s = JString (string_content s)"

subsection \<open>Numbers\<close>

text \<open>
  A \<open>float64\<close> that is NaN or an infinity (exponent bits all ones) has no JSON form:
  \<open>Marshal\<close> fails with \<open>UnsupportedValueError\<close>.
\<close>

definition IsInf_or_IsNaN :: "float64 \<Rightarrow> bool" where
  "IsInf_or_IsNaN f = (drop_bit 52 f AND 0x7FF = 0x7FF)"

definition marshal_float64 :: "float64 \<Rightarrow> marshal_error + json" where
  "marshal_float64 f =
     (if IsInf_or_IsNaN f then Inl (UnsupportedValueError f) else Inr (JNumber (NumFloat f)))"

definition marshal_int64 :: "int64 \<Rightarrow> json" where
  "marshal_int64 n = JNumber (NumInt (sint n))"

subsection \<open>Slices\<close>

text \<open>A nil slice is written as \<open>null\<close>, any other slice as an array.\<close>

fun marshal_list :: "('a \<Rightarrow> marshal_error + json) \<Rightarrow> 'a list \<Rightarrow> marshal_error + json list" where
  "marshal_list f [] = Inr []"
| "marshal_list f (x # xs) =
     (case f x of
        Inl e \<Rightarrow> Inl e
      | Inr j \<Rightarrow> (case marshal_list f xs of Inl e \<Rightarrow> Inl e | Inr js \<Rightarrow> Inr (j # js)))"

definition marshal_slice :: "('a \<Rightarrow> marshal_error + json) \<Rightarrow> 'a slice \<Rightarrow> marshal_error + json" where
  "marshal_slice f sl =
     (case sl of
        NilSlice \<Rightarrow> Inr JNull
      | Slice xs \<Rightarrow> (case marshal_list f xs of Inl e \<Rightarrow> Inl e | Inr js \<Rightarrow> Inr (JArray js)))"

subsection \<open>Structs\<close>

text \<open>
  A struct is written as an object, one member per field under the name in its tag, in
  the order of the fields. The option \<open>omitempty\<close> leaves a field out when its value is
  empty, and \<open>encoding/json\<close> defines empty as: false, 0, a nil pointer, a nil interface
  value, and any array, slice, map or string of length zero. A struct value is never
  empty, so \<open>omitempty\<close> on a field of struct type (\<open>MetaInfo\<close>, \<open>AssetToken\<close>,
  \<open>TechnicalToken\<close>) leaves nothing out; on \<open>ContractAddress\<close> it leaves out the empty
  string and on the pointer \<open>DefiInfo\<close> the nil pointer.
\<close>

definition marshal_DefiTokenInfo :: "DefiTokenInfo \<Rightarrow> json" where
  "marshal_DefiTokenInfo t =
     JObject ([(''symbol'', marshal_string (Token_Symbol t)),
               (''chain'', marshal_string (Chain t))]
              @ (if length (ContractAddress t) = 0 then []
                 else [(''contract_address'', marshal_string (ContractAddress t))]))"

definition marshal_DefiAssetInfo :: "DefiAssetInfo \<Rightarrow> json" where
  "marshal_DefiAssetInfo d =
     JObject [(''asset_token'', marshal_DefiTokenInfo (AssetToken d)),
              (''technical_token'', marshal_DefiTokenInfo (TechnicalToken d))]"

definition marshal_AssetMetaInfo :: "AssetMetaInfo \<Rightarrow> json" where
  "marshal_AssetMetaInfo m =
     JObject (case DefiInfo m of
                None \<Rightarrow> []
              | Some d \<Rightarrow> [(''defi_info'', marshal_DefiAssetInfo d)])"

definition marshal_AssetInfo :: "AssetInfo \<Rightarrow> marshal_error + json" where
  "marshal_AssetInfo a =
     (case marshal_float64 (APY a) of
        Inl e \<Rightarrow> Inl e
      | Inr apy \<Rightarrow>
          Inr (JObject [(''symbol'', marshal_string (Symbol a)),
                        (''description'', marshal_string (Description a)),
                        (''apy'', apy),
                        (''yield_period'', marshal_int64 (YieldPeriod a)),
                        (''yield_freq'', marshal_int64 (YieldFrequency a)),
                        (''total_supply'', marshal_string (TotalSupply a)),
                        (''minimum_amount'', marshal_string (MinimumAmount a)),
                        (''meta_info'', marshal_AssetMetaInfo (MetaInfo a))]))"

definition marshal_LendingProviderInfo :: "LendingProviderInfo \<Rightarrow> json" where
  "marshal_LendingProviderInfo i =
     JObject [(''id'', marshal_string (Info_ID i)),
              (''description'', marshal_string (Info_Description i)),
              (''image'', marshal_string (Image i)),
              (''website'', marshal_string (Website i))]"

definition marshal_LendingProvider :: "LendingProvider \<Rightarrow> marshal_error + json" where
  "marshal_LendingProvider p =
     (case marshal_slice marshal_AssetInfo (Assets p) of
        Inl e \<Rightarrow> Inl e
      | Inr assets \<Rightarrow>
          Inr (JObject [(''id'', marshal_string (ID p)),
                        (''info'', marshal_LendingProviderInfo (Info p)),
                        (''type'', marshal_string (Type p)),
                        (''assets'', assets)]))"

definition marshal_LendingContract :: "LendingContract \<Rightarrow> marshal_error + json" where
  "marshal_LendingContract c =
     (case marshal_AssetInfo (Asset c) of
        Inl e \<Rightarrow> Inl e
      | Inr asset \<Rightarrow>
          Inr (JObject [(''asset'', asset),
                        (''current_amount'', marshal_string (CurrentAmount c))]))"

definition marshal_AccountLendingContracts :: "AccountLendingContracts \<Rightarrow> marshal_error + json" where
  "marshal_AccountLendingContracts a =
     (case marshal_slice marshal_LendingContract (Contracts a) of
        Inl e \<Rightarrow> Inl e
      | Inr contracts \<Rightarrow>
          Inr (JObject [(''address'', marshal_string (Address a)),
                        (''contracts'', contracts)]))"

subsection \<open>Reading a string field back\<close>

text \<open>
  \<open>Unmarshal\<close> into a struct visits the members of the object in the order of the
  document and stores each into the field whose tag matches the member's key: the field
  whose tag is the key exactly or, failing that, the field whose tag equals the key under
  \<open>foldName\<close>. \<open>foldName\<close> replaces every rune by the smallest rune of its case-folding
  class: an ASCII lower-case letter by its upper-case letter, U+017F (long s, bytes
  C5 BF) by \<open>S\<close> and U+212A (Kelvin sign, bytes E2 84 AA) by \<open>K\<close>; every other rune
  outside ASCII folds to a rune outside ASCII, and its bytes are kept here, which decides
  the comparison with a tag the same way, the tags of lending.go being ASCII. No two tags
  of one struct of lending.go are equal under \<open>foldName\<close>, so a key matches the tag
  \<open>name\<close> exactly when \<open>key_matches name\<close> holds of it.

  Into a field of type \<open>string\<close> a JSON string stores its content, \<open>null\<close> stores
  nothing, and any other value stores nothing and is reported as an
  \<open>UnmarshalTypeError\<close> once the whole document is read (the earliest one). What ends up
  in a string field therefore depends on the members matching its tag alone, and only
  that is modelled.
\<close>

datatype unmarshal_error = UnmarshalTypeError

fun unmarshal_string :: "json \<Rightarrow> string \<Rightarrow> string \<times> unmarshal_error option" where
  "unmarshal_string (JString s) old = (s, None)"
| "unmarshal_string JNull old = (old, None)"
| "unmarshal_string _ old = (old, Some UnmarshalTypeError)"

text \<open>
  \<open>c - ('a' - 'A')\<close> on a lower-case ASCII letter: the difference is \<open>0x20\<close>, bit 5,
  which is set in every lower-case letter, so subtracting it clears that bit.
\<close>

definition ascii_upper :: "char \<Rightarrow> char" where
  "ascii_upper c =
     (case c of Char b0 b1 b2 b3 b4 b5 b6 b7 \<Rightarrow> Char b0 b1 b2 b3 b4 False b6 b7)"

fun foldName :: "string \<Rightarrow> string" where
  "foldName [] = []"
| "foldName (c # cs) =
     (let b = (of_char c :: nat) in
      if b < 0x80
      then (if 0x61 \<le> b \<and> b \<le> 0x7A then ascii_upper c else c) # foldName cs
      else if c = CHR 0xC5 \<and> take 1 cs = [CHR 0xBF]
        then CHR ''S'' # foldName (drop 1 cs)
      else if c = CHR 0xE2 \<and> take 2 cs = [CHR 0x84, CHR 0xAA]
        then CHR ''K'' # foldName (drop 2 cs)
      else c # foldName cs)"

definition key_matches :: "string \<Rightarrow> string \<Rightarrow> bool" where
  "key_matches name k = (k = name \<or> foldName k = foldName name)"

fun unmarshal_members ::
  "string \<Rightarrow> (string \<times> json) list \<Rightarrow> string \<Rightarrow> string \<times> unmarshal_error option" where
  "unmarshal_members name [] old = (old, None)"
| "unmarshal_members name ((k, v) # ms) old =
     (if key_matches name k
      then (let (x, e) = unmarshal_string v old;
                (y, e') = unmarshal_members name ms x
            in (y, if e \<noteq> None then e else e'))
      else unmarshal_members name ms old)"

fun unmarshal_string_field ::
  "string \<Rightarrow> json \<Rightarrow> string \<Rightarrow> string \<times> unmarshal_error option" where
  "unmarshal_string_field name (JObject ms) old = unmarshal_members name ms old"
| "unmarshal_string_field name JNull old = (old, None)"
| "unmarshal_string_field name _ old = (old, Some UnmarshalTypeError)"

text \<open>
  Serializing an entity and reading the string field tagged \<open>name\<close> back into a variable
  that held \<open>old\<close>.
\<close>

definition roundtrip_AssetInfo ::
  "string \<Rightarrow> AssetInfo \<Rightarrow> string \<Rightarrow> marshal_error + string \<times> unmarshal_error option" where
  "roundtrip_AssetInfo name a old =
     (case marshal_AssetInfo a of
        Inl e \<Rightarrow> Inl e
      | Inr j \<Rightarrow> Inr (unmarshal_string_field name j old))"

definition roundtrip_LendingContract ::
  "string \<Rightarrow> LendingContract \<Rightarrow> string \<Rightarrow> marshal_error + string \<times> unmarshal_error option" where
  "roundtrip_LendingContract name c old =
     (case marshal_LendingContract c of
        Inl e \<Rightarrow> Inl e
      | Inr j \<Rightarrow> Inr (unmarshal_string_field name j old))"

text \<open>
  The values the decimal-string fields \<open>TotalSupply\<close>, \<open>MinimumAmount\<close> and
  \<open>CurrentAmount\<close> are meant to hold: decimal numerals, written with digits, a sign, a
  decimal point and an exponent marker.
\<close>

definition decimal_string :: "string \<Rightarrow> bool" where
  "decimal_string s = list_all (\<lambda>c. c \<in> set ''0123456789.+-eE'') s"

text \<open>The member of an object under a key (the last one, if the key is repeated).\<close>

fun member :: "string \<Rightarrow> json \<Rightarrow> json option" where
  "member k (JObject ms) = map_of (rev ms) k"
| "member k _ = None"

section \<open>Example values\<close>

text \<open>
  An asset without DeFi metadata (APY 0.05, bits \<open>0x3FA999999999999A\<close>), a provider
  offering it, a backend that answers every call and a backend that fails every call.
  The world of these backends is the number of upstream requests made so far.
\<close>

definition example_asset :: AssetInfo where
  "example_asset =
     \<lparr>Symbol = ''ETH'', Description = ''Ether'', APY = 0x3FA999999999999A,
      YieldPeriod = 0, YieldFrequency = 86400,
      TotalSupply = ''1000000.000000000000000001'', MinimumAmount = ''0.10'',
      MetaInfo = \<lparr>DefiInfo = None\<rparr>\<rparr>"

definition example_provider :: LendingProvider where
  "example_provider =
     \<lparr>ID = ''a'',
      Info = \<lparr>Info_ID = ''a'', Info_Description = ''Provider a'', Image = [],
              Website = []\<rparr>,
      Type = ProviderTypeLending,
      Assets = Slice [example_asset]\<rparr>"

definition example_contract :: LendingContract where
  "example_contract = \<lparr>Asset = example_asset, CurrentAmount = ''12.345678901234567890''\<rparr>"

definition zero_LendingProvider :: LendingProvider where
  "zero_LendingProvider =
     \<lparr>ID = [],
      Info = \<lparr>Info_ID = [], Info_Description = [], Image = [], Website = []\<rparr>,
      Type = [],
      Assets = NilSlice\<rparr>"

definition ok_backend ::
  "LendingProvider \<Rightarrow> 'r slice \<Rightarrow> AccountLendingContracts slice \<Rightarrow> (nat, 'r, 'e) LendingAPI" where
  "ok_backend p rates contracts =
     \<lparr>GetProviderInfo = (\<lambda>w. ((p, None), Suc w)),
      GetCurrentLendingRates = (\<lambda>assets w. ((rates, None), Suc w)),
      GetAccountLendingContracts = (\<lambda>req w. ((contracts, None), Suc w))\<rparr>"

definition failing_backend :: "'e \<Rightarrow> (nat, 'r, 'e) LendingAPI" where
  "failing_backend e =
     \<lparr>GetProviderInfo = (\<lambda>w. ((zero_LendingProvider, Some (BackendError e)), Suc w)),
      GetCurrentLendingRates = (\<lambda>assets w. ((NilSlice, Some (BackendError e)), Suc w)),
      GetAccountLendingContracts = (\<lambda>req w. ((NilSlice, Some (BackendError e)), Suc w))\<rparr>"

definition example_backend :: "(nat, string \<times> float64, string) LendingAPI" where
  "example_backend =
     ok_backend example_provider (Slice [(''ETH'', 0x3FA999999999999A)])
       (Slice [\<lparr>Address = ''0x1'', Contracts = Slice [example_contract]\<rparr>])"

definition example_state :: "(nat, string \<times> float64, string) state" where
  "example_state =
     \<lparr>apis = [(''a'', example_backend), (''b'', failing_backend ''unavailable'')],
      world = 0, trace = []\<rparr>"

definition all_failing_state :: "(nat, string \<times> float64, string) state" where
  "all_failing_state =
     \<lparr>apis = [(''a'', failing_backend ''down''), (''b'', failing_backend ''unavailable'')],
      world = 0, trace = []\<rparr>"

section \<open>Auxiliary facts\<close>

lemmas example_defs =
  example_state_def all_failing_state_def example_backend_def ok_backend_def
  failing_backend_def

lemma lookup_None_iff: "lookup m p = None \<longleftrightarrow> p \<notin> fst ` set m"
  by (simp add: lookup_def map_of_eq_None_iff)

lemma lookup_SomeD: "lookup m p = Some api \<Longrightarrow> (p, api) \<in> set m"
  by (simp add: lookup_def map_of_SomeD)

lemma range_apis: "apis (snd (getProviders_range m ret s)) = apis s"
  by (induction m ret s rule: getProviders_range.induct)
     (auto simp: call_GetProviderInfo_def split: prod.splits)

text \<open>
  The loop invariant of \<open>getProviders\<close>: a non-nil \<open>ret\<close> stays non-nil and grows by the
  providers of the answers that came with a nil error, in the order of the calls.
\<close>

lemma range_result:
  "ret \<noteq> NilSlice \<Longrightarrow>
   fst (getProviders_range m ret s) = Slice (elems ret @ succeeded (responses m (world s)))"
proof (induction m ret s rule: getProviders_range.induct)
  case (1 ret s)
  then show ?case by (cases ret) (simp_all add: succeeded_def)
next
  case (2 k api rest ret s)
  then show ?case
    by (cases ret) (auto simp: call_GetProviderInfo_def succeeded_def split: prod.splits)
qed

lemma getProviders_result:
  "fst (getProviders s) = (Slice (succeeded (responses (apis s) (world s))), None)"
  using range_result[of "Slice []" "apis s" s]
  by (simp add: getProviders_def Let_def case_prod_beta)

text \<open>
  The answers are those of the invocations made: the loop calls \<open>GetProviderInfo\<close> once
  on every entry of the registry, in order, and makes no other call.
\<close>

lemma length_responses: "length (responses m w) = length m"
  by (induction m w rule: responses.induct) (auto split: prod.splits)

lemma range_trace:
  "trace (snd (getProviders_range m ret s))
     = trace s @ map (\<lambda>((k, api), r). Ev_GetProviderInfo k r) (zip m (responses m (world s)))"
  by (induction m ret s rule: getProviders_range.induct)
     (auto simp: call_GetProviderInfo_def split: prod.splits)

lemma getProviders_trace:
  "trace (snd (getProviders s))
     = trace s @ map (\<lambda>((k, api), r). Ev_GetProviderInfo k r)
                   (zip (apis s) (responses (apis s) (world s)))"
  by (simp add: getProviders_def Let_def case_prod_beta range_trace)

lemma succeeded_all_failed: "\<forall>r \<in> set rs. snd r \<noteq> None \<Longrightarrow> succeeded rs = []"
  by (induction rs) (auto simp: succeeded_def)

text \<open>
  The registry \<open>{"a": ok-backend, "b": failing-backend}\<close>, for any backend that always
  answers \<open>p\<close> and any backend that always fails, in either order of iteration.
\<close>

lemma ok_failing_registry:
  assumes "\<And>w. fst (GetProviderInfo A w) = (p, None)"
    and "\<And>w. snd (fst (GetProviderInfo B w)) \<noteq> None"
    and "apis s = [(''a'', A), (''b'', B)] \<or> apis s = [(''b'', B), (''a'', A)]"
  shows "fst (getProviders s) = (Slice [p], None)"
  using assms by (auto simp: getProviders_result succeeded_def case_prod_beta Let_def)

lemma string_content_valid: "ValidString s \<Longrightarrow> string_content s = s"
proof (induction s rule: string_content.induct)
  case 1
  then show ?case by simp
next
  case (2 c cs)
  from "2.prems" obtain n where n: "DecodeRuneInString (c # cs) = Some n"
    and v: "ValidString (drop (n - 1) cs)"
    by (auto split: option.splits)
  from "2.IH"(2) [OF n v] n show ?case by simp
qed

text \<open>A string of ASCII characters, such as a decimal numeral, is valid UTF-8.\<close>

lemma ValidString_ascii: "\<forall>c \<in> set s. (of_char c :: nat) < 0x80 \<Longrightarrow> ValidString s"
  by (induction s) simp_all

lemma decimal_string_valid: "decimal_string s \<Longrightarrow> ValidString s"
proof (rule ValidString_ascii, rule ballI)
  fix c
  assume "decimal_string s" and "c \<in> set s"
  then have "c \<in> set ''0123456789.+-eE''"
    by (simp add: decimal_string_def list_all_iff)
  then show "(of_char c :: nat) < 0x80"
    by auto
qed

text \<open>
  A key written by the encoder is the tag itself; a key that differs from the tag in the
  case of its letters is accepted as well.
\<close>

lemma key_matches_refl: "key_matches name name"
  by (simp add: key_matches_def)

lemma key_matches_fold_example:
  "key_matches ''total_supply'' ''Total_Supply'' \<and>
   key_matches ''total_supply'' [CHR ''t'', CHR ''o'', CHR ''t'', CHR ''a'', CHR ''l'', CHR ''_'',
     CHR 0xC5, CHR 0xBF, CHR ''u'', CHR ''p'', CHR ''p'', CHR ''l'', CHR ''y''] \<and>
   \<not> key_matches ''total_supply'' ''minimum_amount''"
  by (simp add: key_matches_def ascii_upper_def)

lemma marshal_AssetInfo_finite:
  "\<not> IsInf_or_IsNaN (APY a) \<Longrightarrow>
   marshal_AssetInfo a =
     Inr (JObject [(''symbol'', marshal_string (Symbol a)),
                   (''description'', marshal_string (Description a)),
                   (''apy'', JNumber (NumFloat (APY a))),
                   (''yield_period'', marshal_int64 (YieldPeriod a)),
                   (''yield_freq'', marshal_int64 (YieldFrequency a)),
                   (''total_supply'', marshal_string (TotalSupply a)),
                   (''minimum_amount'', marshal_string (MinimumAmount a)),
                   (''meta_info'', marshal_AssetMetaInfo (MetaInfo a))])"
  by (simp add: marshal_AssetInfo_def marshal_float64_def)

lemma roundtrip_total_supply:
  "\<not> IsInf_or_IsNaN (APY a) \<Longrightarrow>
   roundtrip_AssetInfo ''total_supply'' a old = Inr (string_content (TotalSupply a), None)"
  by (simp add: roundtrip_AssetInfo_def marshal_AssetInfo_finite marshal_string_def
        key_matches_def ascii_upper_def)

lemma roundtrip_minimum_amount:
  "\<not> IsInf_or_IsNaN (APY a) \<Longrightarrow>
   roundtrip_AssetInfo ''minimum_amount'' a old = Inr (string_content (MinimumAmount a), None)"
  by (simp add: roundtrip_AssetInfo_def marshal_AssetInfo_finite marshal_string_def
        key_matches_def ascii_upper_def)

lemma roundtrip_current_amount:
  "\<not> IsInf_or_IsNaN (APY (Asset c)) \<Longrightarrow>
   roundtrip_LendingContract ''current_amount'' c old
     = Inr (string_content (CurrentAmount c), None)"
  by (simp add: roundtrip_LendingContract_def marshal_LendingContract_def
        marshal_AssetInfo_finite marshal_string_def key_matches_def ascii_upper_def)

lemma example_apy_finite: "\<not> IsInf_or_IsNaN (APY example_asset)"
  by (simp add: example_asset_def IsInf_or_IsNaN_def)

text \<open>
  Whatever the asset, when \<open>DefiInfo\<close> is nil the member \<open>meta_info\<close> is written, as the
  empty object: \<open>omitempty\<close> does not apply to the struct-typed field \<open>MetaInfo\<close>.
\<close>

lemma meta_info_always_written:
  "marshal_AssetInfo a = Inr j \<Longrightarrow> DefiInfo (MetaInfo a) = None \<Longrightarrow>
   member ''meta_info'' j = Some (JObject [])"
  by (auto simp: marshal_AssetInfo_def marshal_float64_def marshal_AssetMetaInfo_def
      split: if_splits)

section \<open>Unknown providers\<close>

text \<open>
  C1. For a provider identifier that is not a key of the registry, \<open>getRates\<close> and
  \<open>getAccounts\<close> return the nil slice and the error \<open>Unknown provider <identifier>\<close>, and
  leave the state as it was: the world of the backends is untouched and no invocation of a
  backend method is recorded.
\<close>

theorem unknown_provider_error_no_backend_call:
  "provider \<notin> fst ` set (apis s) \<Longrightarrow>
   getRates provider req s
     = ((NilSlice, Some (Errorf (''Unknown provider '' @ provider))), s) \<and>
   getAccounts provider areq s
     = ((NilSlice, Some (Errorf (''Unknown provider '' @ provider))), s)"
  by (simp add: getRates_def getAccounts_def lookup_None_iff[symmetric])

text \<open>C1 at the identifier \<open>missing\<close>, in a registry with the keys \<open>a\<close> and \<open>b\<close>.\<close>

theorem unknown_provider_error_no_backend_call_witness:
  "''missing'' \<notin> fst ` set (apis example_state) \<and>
   fst (getRates ''missing'' \<lparr>Rates_Assets = Slice [''ETH'']\<rparr> example_state)
     = (NilSlice, Some (Errorf ''Unknown provider missing'')) \<and>
   trace (snd (getRates ''missing'' \<lparr>Rates_Assets = Slice [''ETH'']\<rparr> example_state)) = [] \<and>
   fst (getAccounts ''missing'' \<lparr>Addresses = Slice [''0x1''], Request_Assets = NilSlice\<rparr>
          example_state)
     = (NilSlice, Some (Errorf ''Unknown provider missing'')) \<and>
   trace (snd (getAccounts ''missing'' \<lparr>Addresses = Slice [''0x1''], Request_Assets = NilSlice\<rparr>
          example_state)) = []"
proof -
  have h: "''missing'' \<notin> fst ` set (apis example_state)"
    by (simp add: example_state_def)
  have t: "trace example_state = []"
    by (simp add: example_state_def)
  show ?thesis
    using h t unknown_provider_error_no_backend_call [OF h,
        of "\<lparr>Rates_Assets = Slice [''ETH'']\<rparr>"
           "\<lparr>Addresses = Slice [''0x1''], Request_Assets = NilSlice\<rparr>"]
    by simp
qed

section \<open>Listing providers\<close>

text \<open>
  C2. \<open>getProviders\<close> returns the nil error for every registry and every behaviour of the
  backends; when every call to \<open>GetProviderInfo\<close> made by the loop returns an error, the
  slice returned is empty.
\<close>

theorem getProviders_never_fails:
  "snd (fst (getProviders s)) = None \<and>
   ((\<forall>r \<in> set (responses (apis s) (world s)). snd r \<noteq> None)
      \<longrightarrow> fst (fst (getProviders s)) = Slice [])"
  by (simp add: getProviders_result succeeded_all_failed)

text \<open>C2 at a registry of two backends that both fail.\<close>

theorem getProviders_never_fails_witness:
  "map snd (responses (apis all_failing_state) (world all_failing_state))
     = [Some (BackendError ''down''), Some (BackendError ''unavailable'')] \<and>
   fst (getProviders all_failing_state) = (Slice [], None)"
proof -
  have r: "map snd (responses (apis all_failing_state) (world all_failing_state))
             = [Some (BackendError ''down''), Some (BackendError ''unavailable'')]"
    by (simp add: example_defs)
  have h: "\<forall>r \<in> set (responses (apis all_failing_state) (world all_failing_state)).
             snd r \<noteq> None"
    by (simp add: example_defs)
  show ?thesis
    using r h getProviders_never_fails [of all_failing_state] by (simp add: prod_eq_iff)
qed

text \<open>
  C3. The slice returned by \<open>getProviders\<close> holds exactly the providers returned by the
  calls to \<open>GetProviderInfo\<close> that came with a nil error, unchanged and in the order of
  the calls: none that failed is in it, none that succeeded is missing.
\<close>

theorem getProviders_collects_successes:
  "fst (fst (getProviders s)) = Slice (succeeded (responses (apis s) (world s)))"
  by (simp add: getProviders_result)

text \<open>
  C3 at the registry \<open>{"a": ok-backend, "b": failing-backend}\<close>, in both orders of
  iteration: the result is exactly the info of \<open>a\<close>.
\<close>

theorem getProviders_collects_successes_witness:
  "fst (fst (getProviders example_state)) = Slice [example_provider] \<and>
   fst (fst (getProviders (example_state\<lparr>apis := rev (apis example_state)\<rparr>)))
     = Slice [example_provider]"
  using getProviders_collects_successes [of example_state]
    getProviders_collects_successes [of "example_state\<lparr>apis := rev (apis example_state)\<rparr>"]
  by (simp add: example_defs succeeded_def)

text \<open>
  C9. The slice returned by \<open>getProviders\<close> is never the nil slice and the error is nil;
  when the registry is empty or every call fails it is the empty, non-nil slice.
\<close>

theorem getProviders_result_not_nil:
  "fst (fst (getProviders s)) \<noteq> NilSlice \<and>
   snd (fst (getProviders s)) = None \<and>
   (apis s = [] \<or> (\<forall>r \<in> set (responses (apis s) (world s)). snd r \<noteq> None)
      \<longrightarrow> fst (fst (getProviders s)) = Slice [])"
  by (auto simp: getProviders_result succeeded_all_failed succeeded_def)

text \<open>C9 at the empty registry and at a registry of two failing backends.\<close>

theorem getProviders_result_not_nil_witness:
  "fst (getProviders (example_state\<lparr>apis := []\<rparr>)) = (Slice [], None) \<and>
   Slice [] \<noteq> (NilSlice :: LendingProvider slice) \<and>
   map snd (responses (apis all_failing_state) (world all_failing_state))
     = [Some (BackendError ''down''), Some (BackendError ''unavailable'')] \<and>
   fst (getProviders all_failing_state) = (Slice [], None)"
proof -
  have r: "map snd (responses (apis all_failing_state) (world all_failing_state))
             = [Some (BackendError ''down''), Some (BackendError ''unavailable'')]"
    by (simp add: example_defs)
  have h: "\<forall>r \<in> set (responses (apis all_failing_state) (world all_failing_state)).
             snd r \<noteq> None"
    by (simp add: example_defs)
  have e: "apis (example_state\<lparr>apis := []\<rparr>) = []"
    by simp
  show ?thesis
    using r h e getProviders_result_not_nil [of all_failing_state]
      getProviders_result_not_nil [of "example_state\<lparr>apis := []\<rparr>"]
    by (simp add: prod_eq_iff)
qed

section \<open>Delegation to a registered backend\<close>

text \<open>
  C4. For a provider identifier that is a key of the registry, \<open>getRates\<close> returns the
  pair (value, error) that the backend's \<open>GetCurrentLendingRates\<close> returns on the request's
  asset list, and \<open>getAccounts\<close> the pair that \<open>GetAccountLendingContracts\<close> returns on
  the request; the world is left as the backend left it.
\<close>

theorem delegation_passes_result_through:
  "lookup (apis s) provider = Some api \<Longrightarrow>
   fst (getRates provider req s)
     = fst (GetCurrentLendingRates api (Rates_Assets req) (world s)) \<and>
   world (snd (getRates provider req s))
     = snd (GetCurrentLendingRates api (Rates_Assets req) (world s)) \<and>
   fst (getAccounts provider areq s) = fst (GetAccountLendingContracts api areq (world s)) \<and>
   world (snd (getAccounts provider areq s))
     = snd (GetAccountLendingContracts api areq (world s))"
  by (simp add: getRates_def getAccounts_def call_GetCurrentLendingRates_def
        call_GetAccountLendingContracts_def case_prod_beta)

text \<open>
  C4 at a backend that answers (the rates come back as returned) and at one that fails
  (its error comes back as returned).
\<close>

theorem delegation_passes_result_through_witness:
  "lookup (apis example_state) ''a'' = Some example_backend \<and>
   lookup (apis example_state) ''b'' = Some (failing_backend ''unavailable'') \<and>
   fst (getRates ''a'' \<lparr>Rates_Assets = Slice [''ETH'']\<rparr> example_state)
     = (Slice [(''ETH'', 0x3FA999999999999A)], None) \<and>
   fst (getRates ''b'' \<lparr>Rates_Assets = Slice [''ETH'']\<rparr> example_state)
     = (NilSlice, Some (BackendError ''unavailable'')) \<and>
   fst (getAccounts ''b'' \<lparr>Addresses = Slice [''0x1''], Request_Assets = NilSlice\<rparr>
          example_state)
     = (NilSlice, Some (BackendError ''unavailable''))"
proof -
  have a: "lookup (apis example_state) ''a'' = Some example_backend"
    by (simp add: example_state_def lookup_def)
  have b: "lookup (apis example_state) ''b'' = Some (failing_backend ''unavailable'')"
    by (simp add: example_state_def lookup_def)
  show ?thesis
    using a b
      delegation_passes_result_through [OF a, of "\<lparr>Rates_Assets = Slice [''ETH'']\<rparr>"
        "\<lparr>Addresses = Slice [''0x1''], Request_Assets = NilSlice\<rparr>"]
      delegation_passes_result_through [OF b, of "\<lparr>Rates_Assets = Slice [''ETH'']\<rparr>"
        "\<lparr>Addresses = Slice [''0x1''], Request_Assets = NilSlice\<rparr>"]
    by (simp add: example_backend_def ok_backend_def failing_backend_def)
qed

text \<open>
  C10. For a registered provider, \<open>getRates\<close> makes exactly one backend invocation,
  \<open>GetCurrentLendingRates\<close> on the request's asset list as it is, and \<open>getAccounts\<close>
  exactly one, \<open>GetAccountLendingContracts\<close> on the request as it is; an empty or nil
  list is passed on like any other.
\<close>

theorem request_forwarded_verbatim:
  "lookup (apis s) provider = Some api \<Longrightarrow>
   trace (snd (getRates provider req s)) = trace s @
     [Ev_GetCurrentLendingRates provider (Rates_Assets req)
        (fst (GetCurrentLendingRates api (Rates_Assets req) (world s)))] \<and>
   trace (snd (getAccounts provider areq s)) = trace s @
     [Ev_GetAccountLendingContracts provider areq
        (fst (GetAccountLendingContracts api areq (world s)))]"
  by (simp add: getRates_def getAccounts_def call_GetCurrentLendingRates_def
        call_GetAccountLendingContracts_def case_prod_beta)

text \<open>C10 at requests whose lists are empty or nil.\<close>

theorem request_forwarded_verbatim_witness:
  "lookup (apis example_state) ''a'' = Some example_backend \<and>
   trace (snd (getRates ''a'' \<lparr>Rates_Assets = Slice []\<rparr> example_state))
     = [Ev_GetCurrentLendingRates ''a'' (Slice [])
          (Slice [(''ETH'', 0x3FA999999999999A)], None)] \<and>
   trace (snd (getRates ''a'' \<lparr>Rates_Assets = NilSlice\<rparr> example_state))
     = [Ev_GetCurrentLendingRates ''a'' NilSlice
          (Slice [(''ETH'', 0x3FA999999999999A)], None)] \<and>
   trace (snd (getAccounts ''a'' \<lparr>Addresses = Slice [], Request_Assets = NilSlice\<rparr>
            example_state))
     = [Ev_GetAccountLendingContracts ''a'' \<lparr>Addresses = Slice [], Request_Assets = NilSlice\<rparr>
          (Slice [\<lparr>Address = ''0x1'', Contracts = Slice [example_contract]\<rparr>], None)]"
proof -
  have a: "lookup (apis example_state) ''a'' = Some example_backend"
    by (simp add: example_state_def lookup_def)
  have t: "trace example_state = []"
    by (simp add: example_state_def)
  show ?thesis
    using a t
      request_forwarded_verbatim [OF a, of "\<lparr>Rates_Assets = Slice []\<rparr>"
        "\<lparr>Addresses = Slice [], Request_Assets = NilSlice\<rparr>"]
      request_forwarded_verbatim [OF a, of "\<lparr>Rates_Assets = NilSlice\<rparr>"
        "\<lparr>Addresses = Slice [], Request_Assets = NilSlice\<rparr>"]
    by (simp add: example_backend_def ok_backend_def)
qed

section \<open>The registry\<close>

text \<open>
  C7. None of the three operations writes to the registry: after \<open>getProviders\<close>,
  \<open>getRates\<close> or \<open>getAccounts\<close> the registry has the entries it had before.
\<close>

theorem operations_leave_registry_unchanged:
  "apis (snd (getProviders s)) = apis s \<and>
   apis (snd (getRates provider req s)) = apis s \<and>
   apis (snd (getAccounts provider areq s)) = apis s"
  by (simp add: getProviders_def getRates_def getAccounts_def Let_def case_prod_beta range_apis
        call_GetCurrentLendingRates_def call_GetAccountLendingContracts_def
      split: option.splits)

text \<open>
  C8. The map read of \<open>getRates\<close> and \<open>getAccounts\<close> has two outcomes, for every
  identifier and every registry: not found, exactly when the identifier is no key of the
  registry, or an entry of the registry under that key. Accordingly each operation either
  returns the unknown-provider error or is the call of the backend found.
\<close>

theorem registry_lookup_total:
  "(lookup (apis s) provider = None \<longleftrightarrow> provider \<notin> fst ` set (apis s)) \<and>
   (\<forall>api. lookup (apis s) provider = Some api \<longrightarrow> (provider, api) \<in> set (apis s)) \<and>
   (getRates provider req s
      = ((NilSlice, Some (Errorf (''Unknown provider '' @ provider))), s)
    \<or> (\<exists>api. lookup (apis s) provider = Some api \<and>
          getRates provider req s
            = call_GetCurrentLendingRates provider api (Rates_Assets req) s)) \<and>
   (getAccounts provider areq s
      = ((NilSlice, Some (Errorf (''Unknown provider '' @ provider))), s)
    \<or> (\<exists>api. lookup (apis s) provider = Some api \<and>
          getAccounts provider areq s
            = call_GetAccountLendingContracts provider api areq s))"
  by (auto simp: lookup_None_iff getRates_def getAccounts_def dest: lookup_SomeD
      split: option.splits)

text \<open>C8 at the empty identifier (not found) and at a registered one (found).\<close>

theorem registry_lookup_total_witness:
  "lookup (apis example_state) [] = None \<and>
   lookup (apis example_state) ''a'' = Some example_backend \<and>
   (''a'', example_backend) \<in> set (apis example_state)"
proof -
  have a: "lookup (apis example_state) ''a'' = Some example_backend"
    by (simp add: example_state_def lookup_def)
  have e: "[] \<notin> fst ` set (apis example_state)"
    by (simp add: example_state_def)
  show ?thesis
    using a e registry_lookup_total [of example_state "[]"]
      registry_lookup_total [of example_state "''a''"]
    by blast
qed

section \<open>Serialized form\<close>

text \<open>
  C5. The claim is that a provider whose asset has no \<open>DefiInfo\<close> is serialized without
  the fields \<open>meta_info\<close> and \<open>defi_info\<close>. The example provider, whose one asset has no
  \<open>DefiInfo\<close>, is serialized with the member \<open>meta_info\<close> present, as the empty object;
  only \<open>defi_info\<close> is left out.
\<close>

theorem marshal_example_provider_writes_meta_info:
  "marshal_LendingProvider example_provider =
     Inr (JObject
       [(''id'', JString ''a''),
        (''info'',
         JObject
          [(''id'', JString ''a''),
           (''description'', JString ''Provider a''),
           (''image'', JString []),
           (''website'', JString [])]),
        (''type'', JString ''lending''),
        (''assets'',
         JArray
          [JObject
            [(''symbol'', JString ''ETH''),
             (''description'', JString ''Ether''),
             (''apy'', JNumber (NumFloat 0x3FA999999999999A)),
             (''yield_period'', JNumber (NumInt 0)),
             (''yield_freq'', JNumber (NumInt 86400)),
             (''total_supply'', JString ''1000000.000000000000000001''),
             (''minimum_amount'', JString ''0.10''),
             (''meta_info'', JObject [])]])])"
  by (simp add: marshal_LendingProvider_def example_provider_def example_asset_def
        marshal_slice_def marshal_AssetInfo_def marshal_float64_def IsInf_or_IsNaN_def
        marshal_string_def marshal_int64_def marshal_AssetMetaInfo_def
        marshal_LendingProviderInfo_def ProviderTypeLending_def)

text \<open>
  C6, as claimed, fails: an asset whose \<open>TotalSupply\<close> is the decimal string \<open>7\<close> and
  whose \<open>APY\<close> is NaN (bits \<open>0x7FF8000000000000\<close>) cannot be serialized at all, so
  nothing is read back: \<open>Marshal\<close> fails with \<open>UnsupportedValueError\<close>.
\<close>

theorem decimal_string_roundtrip_nan_counterexample:
  "decimal_string ''7'' \<and>
   TotalSupply (example_asset\<lparr>APY := 0x7FF8000000000000, TotalSupply := ''7''\<rparr>) = ''7'' \<and>
   roundtrip_AssetInfo ''total_supply''
       (example_asset\<lparr>APY := 0x7FF8000000000000, TotalSupply := ''7''\<rparr>) []
     = Inl (UnsupportedValueError 0x7FF8000000000000)"
  by (simp add: decimal_string_def roundtrip_AssetInfo_def marshal_AssetInfo_def
        marshal_float64_def IsInf_or_IsNaN_def example_asset_def)

text \<open>
  C6, amended. When the containing entity can be serialized (its \<open>APY\<close> is neither NaN
  nor an infinity), every decimal-string value of \<open>TotalSupply\<close>, \<open>MinimumAmount\<close> and
  \<open>CurrentAmount\<close> is read back from the serialized entity byte for byte, without error:
  the fields travel as JSON strings, never as numbers.
\<close>

theorem decimal_strings_roundtrip_when_serializable:
  "(\<not> IsInf_or_IsNaN (APY a) \<and> decimal_string (TotalSupply a) \<longrightarrow>
      roundtrip_AssetInfo ''total_supply'' a old = Inr (TotalSupply a, None)) \<and>
   (\<not> IsInf_or_IsNaN (APY a) \<and> decimal_string (MinimumAmount a) \<longrightarrow>
      roundtrip_AssetInfo ''minimum_amount'' a old = Inr (MinimumAmount a, None)) \<and>
   (\<not> IsInf_or_IsNaN (APY (Asset c)) \<and> decimal_string (CurrentAmount c) \<longrightarrow>
      roundtrip_LendingContract ''current_amount'' c old = Inr (CurrentAmount c, None))"
  by (simp add: roundtrip_total_supply roundtrip_minimum_amount roundtrip_current_amount
        string_content_valid decimal_string_valid)

text \<open>C6, amended, at the example asset and the example contract.\<close>

theorem decimal_strings_roundtrip_when_serializable_witness:
  "\<not> IsInf_or_IsNaN (APY example_asset) \<and>
   decimal_string ''1000000.000000000000000001'' \<and> decimal_string ''0.10'' \<and>
   decimal_string ''12.345678901234567890'' \<and>
   roundtrip_AssetInfo ''total_supply'' example_asset ''x''
     = Inr (''1000000.000000000000000001'', None) \<and>
   roundtrip_AssetInfo ''minimum_amount'' example_asset ''x'' = Inr (''0.10'', None) \<and>
   roundtrip_LendingContract ''current_amount'' example_contract ''x''
     = Inr (''12.345678901234567890'', None)"
proof -
  have f: "\<not> IsInf_or_IsNaN (APY example_asset)"
    by (rule example_apy_finite)
  have f': "\<not> IsInf_or_IsNaN (APY (Asset example_contract))"
    by (simp add: example_contract_def example_apy_finite)
  have t: "TotalSupply example_asset = ''1000000.000000000000000001''"
    and m: "MinimumAmount example_asset = ''0.10''"
    and c: "CurrentAmount example_contract = ''12.345678901234567890''"
    by (simp_all add: example_asset_def example_contract_def)
  have v: "decimal_string ''1000000.000000000000000001''" "decimal_string ''0.10''"
    "decimal_string ''12.345678901234567890''"
    by (simp_all add: decimal_string_def)
  show ?thesis
    using f f' v
      decimal_strings_roundtrip_when_serializable
        [where a = example_asset and c = example_contract and old = "''x''"]
    by (simp add: t m c)
qed

end
